theory Spec2Isabelle
  imports Complex_Main "HOL-Library.Sublist" "HOL-Library.Multiset"
begin

section \<open>Python strings and lists\<close>

text \<open>
  Texts are lists of characters; a character stands for a code point below 256. The
  character classes below are Python's \<open>str.isspace\<close> and \<open>str.lower\<close> and the classes
  \<open>\s\<close> and \<open>\d\<close> of regular expressions on these code points: white space is
  U+0009..U+000D, U+001C..U+0020, U+0085 and U+00A0; the only decimal digits are
  \<open>0\<close>..\<open>9\<close>; \<open>lower\<close> maps \<open>A\<close>..\<open>Z\<close> and U+00C0..U+00DE other than U+00D7 to the
  letter 32 code points above and leaves every other character as it is.
  \<open>is_upper\<close>, \<open>is_lower\<close> and \<open>upper_char\<close> serve \<open>title\<close> only, which the program
  applies to the ASCII keys of a dictionary; they are read on ASCII letters.
\<close>

definition is_space :: "char \<Rightarrow> bool" where
  "is_space c =
     (let n = (of_char c :: nat)
      in (9 \<le> n \<and> n \<le> 13) \<or> (28 \<le> n \<and> n \<le> 32) \<or> n = 133 \<or> n = 160)"

definition is_digit :: "char \<Rightarrow> bool" where
  "is_digit c = (let n = (of_char c :: nat) in 48 \<le> n \<and> n \<le> 57)"

definition is_upper :: "char \<Rightarrow> bool" where
  "is_upper c = (let n = (of_char c :: nat) in 65 \<le> n \<and> n \<le> 90)"

definition is_lower :: "char \<Rightarrow> bool" where
  "is_lower c = (let n = (of_char c :: nat) in 97 \<le> n \<and> n \<le> 122)"

definition lower_char :: "char \<Rightarrow> char" where
  "lower_char c =
     (let n = (of_char c :: nat)
      in if (65 \<le> n \<and> n \<le> 90) \<or> (192 \<le> n \<and> n \<le> 222 \<and> n \<noteq> 215)
         then char_of (n + 32) else c)"

definition upper_char :: "char \<Rightarrow> char" where
  "upper_char c = (if is_lower c then char_of ((of_char c :: nat) - 32) else c)"

text \<open>\<open>s.lower()\<close>\<close>

definition lower :: "string \<Rightarrow> string" where
  "lower s = map lower_char s"

text \<open>\<open>s.strip()\<close>: leading and trailing white space removed.\<close>

definition strip :: "string \<Rightarrow> string" where
  "strip s = rev (dropWhile is_space (rev (dropWhile is_space s)))"

text \<open>\<open>s.replace(a, b)\<close> for single characters \<open>a\<close> and \<open>b\<close>.\<close>

definition replace_char :: "char \<Rightarrow> char \<Rightarrow> string \<Rightarrow> string" where
  "replace_char a b s = map (\<lambda>c. if c = a then b else c) s"

text \<open>
  \<open>s.title()\<close>: a cased character that follows an uncased one is put in upper case,
  every other cased character in lower case. The flag is Python's \<open>previous_is_cased\<close>.
\<close>

fun title_from :: "bool \<Rightarrow> string \<Rightarrow> string" where
  "title_from prev [] = []"
| "title_from prev (c # cs) =
     (if is_lower c then (if prev then c else upper_char c) # title_from True cs
      else if is_upper c then (if prev then lower_char c else c) # title_from True cs
      else c # title_from False cs)"

definition title :: "string \<Rightarrow> string" where
  "title s = title_from False s"

text \<open>\<open>sub in s\<close> on strings: \<open>sub\<close> occurs in \<open>s\<close> as a contiguous substring.\<close>

fun contains :: "string \<Rightarrow> string \<Rightarrow> bool" where
  "contains [] sub = (sub = [])"
| "contains (c # cs) sub = (take (length sub) (c # cs) = sub \<or> contains cs sub)"

text \<open>\<open>sep.join(parts)\<close>\<close>

fun join :: "string \<Rightarrow> string list \<Rightarrow> string" where
  "join sep [] = []"
| "join sep [p] = p"
| "join sep (p # q # ps) = p @ sep @ join sep (q # ps)"

text \<open>
  Slices. \<open>xs[start:]\<close> and \<open>xs[:stop]\<close> with Python's reading of a negative index
  (counted from the end, clipped at the ends of the list). Note that \<open>xs[-0:]\<close> is
  \<open>xs[0:]\<close>, the whole list.
\<close>

definition slice_from :: "int \<Rightarrow> 'a list \<Rightarrow> 'a list" where
  "slice_from start xs =
     (if start < 0 then drop (nat (int (length xs) + start)) xs else drop (nat start) xs)"

definition slice_to :: "int \<Rightarrow> 'a list \<Rightarrow> 'a list" where
  "slice_to stop xs =
     (if stop < 0 then take (nat (int (length xs) + stop)) xs else take (nat stop) xs)"

text \<open>
  \<open>re.split\<close> and \<open>re.findall\<close> scan a text from left to right and resume behind each
  match. A pattern is given by its matcher: the length of the match that starts at the
  head of the remaining text, \<open>0\<close> for no match (none of the patterns of this program
  matches the empty string); the matcher also sees the character before the head, for
  a look-behind. The first argument of the scanners counts the characters of the
  current match still to be passed over.
\<close>

type_synonym matcher = "char option \<Rightarrow> string \<Rightarrow> nat"

fun re_split_from :: "matcher \<Rightarrow> nat \<Rightarrow> char option \<Rightarrow> string \<Rightarrow> string \<Rightarrow> string list" where
  "re_split_from m k prev piece [] = [piece]"
| "re_split_from m (Suc k) prev piece (c # cs) = re_split_from m k (Some c) piece cs"
| "re_split_from m 0 prev piece (c # cs) =
     (case m prev (c # cs) of
        0 \<Rightarrow> re_split_from m 0 (Some c) (piece @ [c]) cs
      | Suc n \<Rightarrow> piece # re_split_from m n (Some c) [] cs)"

definition re_split :: "matcher \<Rightarrow> string \<Rightarrow> string list" where
  "re_split m s = re_split_from m 0 None [] s"

fun re_findall_from :: "matcher \<Rightarrow> nat \<Rightarrow> char option \<Rightarrow> string \<Rightarrow> string list" where
  "re_findall_from m k prev [] = []"
| "re_findall_from m (Suc k) prev (c # cs) = re_findall_from m k (Some c) cs"
| "re_findall_from m 0 prev (c # cs) =
     (case m prev (c # cs) of
        0 \<Rightarrow> re_findall_from m 0 (Some c) cs
      | Suc n \<Rightarrow> take (Suc n) (c # cs) # re_findall_from m n (Some c) cs)"

definition re_findall :: "matcher \<Rightarrow> string \<Rightarrow> string list" where
  "re_findall m s = re_findall_from m 0 None s"


section \<open>Rule engine (backend/validation/rules.py)\<close>

text \<open>
  A violation is a dictionary with the five keys below; both places of the program
  that build one (the rule engine and the parser of the model's answer) set all five.
  Severities are strings, as in the source.
\<close>

record violation =
  category :: string
  severity :: string
  description :: string
  recommendation :: string
  guideline_reference :: string

text \<open>The dictionary \<open>REQUIRED_ELEMENTS\<close>, in its insertion order.\<close>

definition REQUIRED_ELEMENTS :: "(string \<times> string list) list" where
  "REQUIRED_ELEMENTS =
    [(''patient_info'', [''patient'', ''name'', ''age'', ''dob'']),
     (''visit_date'', [''date'']),
     (''visit_type'', [''visit type'', ''skilled nursing'', ''physical therapy'',
        ''occupational therapy'']),
     (''assessment'', [''assessment'', ''evaluation'', ''status'']),
     (''interventions'', [''intervention'', ''treatment'', ''care provided'']),
     (''vital_signs'', [''vital signs'', ''bp'', ''blood pressure'', ''temperature'',
        ''pulse'', ''heart rate'']),
     (''plan'', [''plan'', ''plan of care'', ''continuing'']),
     (''nurse_signature'', [''rn'', ''nurse'', ''signature'', ''signed'']),
     (''time_in_out'', [''time in'', ''time out'', ''arrival'', ''departure''])]"

definition HOMEBOUND_KEYWORDS :: "string list" where
  "HOMEBOUND_KEYWORDS =
    [''homebound'', ''unable to leave home'', ''confined to home'', ''wheelchair bound'',
     ''walker'', ''assistance to leave'', ''taxing effort'']"

definition MEDICAL_NECESSITY_KEYWORDS :: "string list" where
  "MEDICAL_NECESSITY_KEYWORDS =
    [''skilled'', ''assessment'', ''evaluation'', ''teaching'', ''monitoring'',
     ''wound care'', ''medication management'', ''observation'']"

text \<open>One pass of the loop of \<open>check_required_elements\<close> over a dictionary item.\<close>

definition required_element_violation :: "string \<Rightarrow> violation" where
  "required_element_violation element_type =
     \<lparr>category = element_type,
      severity = (if element_type \<in> set [''assessment'', ''interventions'', ''plan'']
                  then ''major'' else ''minor''),
      description = ''Missing required element: '' @
                    title (replace_char (CHR ''_'') (CHR '' '') element_type),
      recommendation = ''Include '' @ replace_char (CHR ''_'') (CHR '' '') element_type @
                       '' in the visit note'',
      guideline_reference = ''CMS Medicare Benefit Policy Manual''\<rparr>"

definition check_required_elements :: "string \<Rightarrow> violation list" where
  "check_required_elements note_text =
     (let note_lower = lower note_text in
      concat (map (\<lambda>(element_type, keywords).
                if list_ex (\<lambda>keyword. contains note_lower keyword) keywords then []
                else [required_element_violation element_type])
              REQUIRED_ELEMENTS))"

definition check_homebound_status :: "string \<Rightarrow> violation list" where
  "check_homebound_status note_text =
     (let note_lower = lower note_text;
          has_homebound = list_ex (\<lambda>keyword. contains note_lower keyword) HOMEBOUND_KEYWORDS
      in if \<not> has_homebound then
           [\<lparr>category = ''homebound_status'',
             severity = ''critical'',
             description = ''Missing homebound status documentation'',
             recommendation = ''Document patient's homebound status, including why patient cannot leave home or requires taxing effort to leave'',
             guideline_reference = ''Section 30.1.1 - Homebound Requirement''\<rparr>]
         else [])"

definition check_medical_necessity :: "string \<Rightarrow> violation list" where
  "check_medical_necessity note_text =
     (let note_lower = lower note_text;
          necessity_count =
            sum_list (map (\<lambda>keyword. 1::nat)
              (filter (\<lambda>keyword. contains note_lower keyword) MEDICAL_NECESSITY_KEYWORDS))
      in if necessity_count < 2 then
           [\<lparr>category = ''medical_necessity'',
             severity = ''critical'',
             description = ''Insufficient medical necessity documentation'',
             recommendation = ''Clearly document skilled nursing services provided and why they are medically necessary'',
             guideline_reference = ''Section 40 - Covered Services''\<rparr>]
         else [])"

text \<open>
  The pattern \<open>(\d{1,2}:\d{2}\s*(?:AM|PM|am|pm)?)\<close>. \<open>\d{1,2}\<close> is greedy: two digits
  are tried before one. \<open>\s*\<close> takes the whole run of white space, and the
  optional suffix is taken when it follows.
\<close>

definition digits_colon_digits :: "nat \<Rightarrow> string \<Rightarrow> bool" where
  "digits_colon_digits k s =
     (k + 3 \<le> length s \<and> list_all is_digit (take k s) \<and> s ! k = CHR '':'' \<and>
      list_all is_digit (take 2 (drop (Suc k) s)))"

definition time_suffix_len :: "string \<Rightarrow> nat" where
  "time_suffix_len s =
     (let ws = length (takeWhile is_space s)
      in ws + (if take 2 (drop ws s) \<in> set [''AM'', ''PM'', ''am'', ''pm''] then 2 else 0))"

definition time_pattern :: matcher where
  "time_pattern prev s =
     (if digits_colon_digits 2 s then 5 + time_suffix_len (drop 5 s)
      else if digits_colon_digits 1 s then 4 + time_suffix_len (drop 4 s)
      else 0)"

definition check_visit_duration :: "string \<Rightarrow> violation list" where
  "check_visit_duration note_text =
     (let times = re_findall time_pattern note_text
      in if length times < 2 then
           [\<lparr>category = ''visit_details'',
             severity = ''minor'',
             description = ''Visit start and end times not clearly documented'',
             recommendation = ''Document specific time in and time out for the visit'',
             guideline_reference = ''Documentation Requirements''\<rparr>]
         else [])"

definition validate_note :: "string \<Rightarrow> violation list" where
  "validate_note note_text =
     check_required_elements note_text @ check_homebound_status note_text @
     check_medical_necessity note_text @ check_visit_duration note_text"


section \<open>Similarity formatter (backend/retrieval/search.py)\<close>

text \<open>
  Python's floats are modelled as real numbers: the operations the formatter uses are
  subtraction from one, addition of a boost, \<open>min\<close> and comparison.
\<close>

datatype py_error = IndexError | ValueError

text \<open>
  The metadata dictionary of a match: \<open>None\<close> is an absent key (\<open>{}\<close> has every
  key absent).
\<close>

record metadata =
  md_page_number :: "int option"
  md_section_header :: "string option"
  md_chunk_id :: "int option"

definition no_metadata :: metadata where
  "no_metadata = \<lparr>md_page_number = None, md_section_header = None, md_chunk_id = None\<rparr>"

text \<open>
  What the vector index answers: grouped lists under the keys \<open>documents\<close>,
  \<open>metadatas\<close> and \<open>distances\<close>; \<open>None\<close> is an absent key.
\<close>

record raw_results =
  documents :: "string list list option"
  metadatas :: "metadata list list option"
  distances :: "real list list option"

record search_result =
  sr_text :: string
  sr_page_number :: "int option"
  sr_section_header :: string
  similarity_score :: real
  distance :: real
  sr_chunk_id :: "int option"

text \<open>\<open>results.get(key, [[]])[0]\<close>: indexing an empty list of groups raises.\<close>

definition first_group :: "'a list list option \<Rightarrow> py_error + 'a list" where
  "first_group groups =
     (case groups of
        None \<Rightarrow> Inr []
      | Some [] \<Rightarrow> Inl IndexError
      | Some (g # _) \<Rightarrow> Inr g)"

text \<open>The body of the loop of \<open>_format_results\<close>, for the match at index \<open>i\<close>.\<close>

definition format_match :: "metadata list \<Rightarrow> real list \<Rightarrow> nat \<Rightarrow> string \<Rightarrow> search_result" where
  "format_match mds ds i doc =
     (let md = (if i < length mds then mds ! i else no_metadata);
          dist = (if i < length ds then ds ! i else 1);
          similarity = 1 - min dist 1
      in \<lparr>sr_text = doc,
          sr_page_number = md_page_number md,
          sr_section_header = (case md_section_header md of None \<Rightarrow> [] | Some h \<Rightarrow> h),
          similarity_score = similarity,
          distance = dist,
          sr_chunk_id = md_chunk_id md\<rparr>)"

definition format_results :: "raw_results \<Rightarrow> py_error + search_result list" where
  "format_results results =
     (case documents results of
        None \<Rightarrow> Inr []
      | Some [] \<Rightarrow> Inr []
      | Some (docs # _) \<Rightarrow>
          if docs = [] then Inr []
          else (case first_group (metadatas results) of
                  Inl e \<Rightarrow> Inl e
                | Inr mds \<Rightarrow>
                    (case first_group (distances results) of
                       Inl e \<Rightarrow> Inl e
                     | Inr ds \<Rightarrow>
                         Inr (map (\<lambda>(i, doc). format_match mds ds i doc)
                                (enumerate 0 docs)))))"

text \<open>
  The two collaborators of \<open>SemanticSearch\<close>. The embedder answers \<open>None\<close> when the
  provider fails (\<open>generate_single_embedding\<close> catches the exception and returns
  \<open>None\<close>); the vector store raises when its collection is not initialised.
\<close>

type_synonym metadata_filter = "(string \<times> string) list"

record semantic_search =
  embedder :: "string \<Rightarrow> real list option"
  vector_store :: "real list \<Rightarrow> int \<Rightarrow> metadata_filter option \<Rightarrow> py_error + raw_results"

definition search ::
  "semantic_search \<Rightarrow> string \<Rightarrow> int \<Rightarrow> metadata_filter option \<Rightarrow> py_error + search_result list" where
  "search self query n_results filter_metadata =
     (case embedder self query of
        None \<Rightarrow> Inr []
      | Some query_embedding \<Rightarrow>
          (case vector_store self query_embedding n_results filter_metadata of
             Inl e \<Rightarrow> Inl e
           | Inr results \<Rightarrow> format_results results))"





text \<open>The test of that loop: the keyword occurs in the text, cases ignored.\<close>

definition keyword_matches :: "string \<Rightarrow> string \<Rightarrow> bool" where
  "keyword_matches txt keyword = contains (lower txt) (lower keyword)"





section \<open>Validation merger (backend/validation/validator.py)\<close>

text \<open>
  \<open>_combine_results\<close> appends to the list object it reads from the model's result, so
  the lists of strengths live in a store: a reference names a list object, and two
  dictionaries that hold the same reference share the list. The score is a float that
  only ever holds whole numbers; it is modelled as an integer.
\<close>

type_synonym ref = nat
type_synonym store = "ref \<Rightarrow> string list"

record llm_result =
  lr_status :: string
  lr_overall_score :: int
  lr_violations :: "violation list"
  lr_strengths :: ref
  lr_summary :: string

record guideline_reference_entry =
  gr_text :: string
  gr_page_number :: "int option"
  gr_section_header :: string

record compliance_result =
  cr_status :: string
  cr_overall_score :: int
  cr_violations :: "violation list"
  cr_strengths :: ref
  cr_summary :: string
  cr_guideline_references :: "guideline_reference_entry list"

text \<open>
  The loop over the model's violations: one is appended unless some violation already
  in the list has its category.
\<close>

definition add_if_new :: "violation list \<Rightarrow> violation \<Rightarrow> violation list" where
  "add_if_new all_violations llm_v =
     (let is_duplicate = list_ex (\<lambda>v. category v = category llm_v) all_violations
      in if \<not> is_duplicate then all_violations @ [llm_v] else all_violations)"

definition merge_violations :: "violation list \<Rightarrow> violation list \<Rightarrow> violation list" where
  "merge_violations rule_violations llm_violations =
     foldl add_if_new rule_violations llm_violations"

text \<open>\<open>sum(1 for v in violations if v.get('severity') == sev)\<close>\<close>

definition severity_count :: "string \<Rightarrow> violation list \<Rightarrow> int" where
  "severity_count sev violations =
     sum_list (map (\<lambda>v. 1) (filter (\<lambda>v. severity v = sev) violations))"

text \<open>Decimal digits of a number, for the formatted texts of the summary.\<close>

fun show_nat :: "nat \<Rightarrow> string" where
  "show_nat n =
     (if n < 10 then [char_of (48 + n)]
      else show_nat (n div 10) @ [char_of (48 + n mod 10)])"

declare show_nat.simps [simp del]

text \<open>\<open>f"{score:.1f}"\<close> for a score that is a whole number and not negative.\<close>

definition format_score :: "int \<Rightarrow> string" where
  "format_score score = show_nat (nat score) @ ''.0''"

definition create_summary :: "string \<Rightarrow> int \<Rightarrow> violation list \<Rightarrow> string list \<Rightarrow> string" where
  "create_summary status score violations strengths =
     (let status_part =
            (if status = ''compliant'' then
               ''This visit note is COMPLIANT with CMS guidelines (Score: '' @
               format_score score @ ''/100).''
             else if status = ''needs_review'' then
               ''This visit note NEEDS REVIEW (Score: '' @ format_score score @ ''/100).''
             else
               ''This visit note is NON-COMPLIANT with CMS guidelines (Score: '' @
               format_score score @ ''/100).'');
          violation_part =
            (if violations \<noteq> [] then
               (let critical = severity_count ''critical'' violations;
                    major = severity_count ''major'' violations;
                    minor = severity_count ''minor'' violations;
                    viol_text = ''Found '' @ show_nat (length violations) @ '' issue(s): '';
                    parts =
                      (if critical > 0 then [show_nat (nat critical) @ '' critical''] else []) @
                      (if major > 0 then [show_nat (nat major) @ '' major''] else []) @
                      (if minor > 0 then [show_nat (nat minor) @ '' minor''] else [])
                in [viol_text @ join '', '' parts @ ''.''])
             else []);
          strengths_part =
            (if strengths \<noteq> [] then
               [''Strengths: '' @ show_nat (length strengths) @ '' well-documented aspect(s).'']
             else [])
      in join '' '' ([status_part] @ violation_part @ strengths_part))"

definition guideline_entry :: "search_result \<Rightarrow> guideline_reference_entry" where
  "guideline_entry g =
     \<lparr>gr_text = slice_to 200 (sr_text g) @ ''...'',
      gr_page_number = sr_page_number g,
      gr_section_header = sr_section_header g\<rparr>"

text \<open>
  \<open>_combine_results\<close>. \<open>all_violations\<close> starts as a copy of the rule violations, a list
  of its own, and is a value here. \<open>strengths\<close> is the list object of the model's
  result itself: \<open>append\<close> changes the store at its reference, and the result holds the
  same reference.
\<close>

definition combine_results ::
  "store \<Rightarrow> violation list \<Rightarrow> llm_result \<Rightarrow> search_result list \<Rightarrow> store \<times> compliance_result" where
  "combine_results st rule_violations llm_res guidelines =
     (let all_violations = merge_violations rule_violations (lr_violations llm_res);
          critical_count = severity_count ''critical'' all_violations;
          major_count = severity_count ''major'' all_violations;
          minor_count = severity_count ''minor'' all_violations;
          score = max 0 (100 - critical_count * 30 - major_count * 15 - minor_count * 5);
          status =
            (if critical_count > 0 \<or> score < 60 then ''non_compliant''
             else if major_count > 2 \<or> score < 80 then ''needs_review''
             else ''compliant'');
          strengths = lr_strengths llm_res;
          st' =
            (if all_violations = [] then
               st(strengths := st strengths @
                    [''All required elements are present'',
                     ''Documentation meets CMS guidelines''])
             else st);
          summary = create_summary status score all_violations (st' strengths)
      in (st',
          \<lparr>cr_status = status,
           cr_overall_score = score,
           cr_violations = all_violations,
           cr_strengths = strengths,
           cr_summary = summary,
           cr_guideline_references = map guideline_entry (slice_to 3 guidelines)\<rparr>))"


section \<open>Chunker (backend/ingestion/chunker.py)\<close>

text \<open>
  The tokenizer is a library outside the repository; the chunker holds it together
  with its two numbers, and the model takes \<open>encode\<close> and \<open>decode\<close> as they come.
\<close>

record 'tok text_chunker =
  chunk_size :: int
  chunk_overlap :: int
  encode :: "string \<Rightarrow> 'tok list"
  decode :: "'tok list \<Rightarrow> string"

definition count_tokens :: "'tok text_chunker \<Rightarrow> string \<Rightarrow> int" where
  "count_tokens self txt = int (length (encode self txt))"

text \<open>
  The pattern \<open>\n\n+|\n\s*\n\<close>. The first alternative is tried first: a line feed and
  all line feeds that follow it. The second: a line feed, white space, and a line
  feed; the greedy \<open>\s*\<close> gives back until a line feed follows, so the match ends with
  the last line feed of the run of white space.
\<close>

definition paragraph_break :: matcher where
  "paragraph_break prev s =
     (case s of
        [] \<Rightarrow> 0
      | c # rest \<Rightarrow>
          if c \<noteq> CHR 0x0A then 0
          else if (case rest of [] \<Rightarrow> False | d # _ \<Rightarrow> d = CHR 0x0A)
            then 1 + length (takeWhile (\<lambda>d. d = CHR 0x0A) rest)
          else (let ws = takeWhile is_space rest
                in if CHR 0x0A \<in> set ws
                   then 1 + (length ws - length (takeWhile (\<lambda>d. d \<noteq> CHR 0x0A) (rev ws)))
                   else 0))"

definition split_into_paragraphs :: "string \<Rightarrow> string list" where
  "split_into_paragraphs txt =
     map strip (filter (\<lambda>p. strip p \<noteq> []) (re_split paragraph_break txt))"

text \<open>The pattern \<open>(?<=[.!?])\s+\<close>: white space behind a full stop, \<open>!\<close> or \<open>?\<close>.\<close>

definition sentence_break :: matcher where
  "sentence_break prev s =
     (if prev \<in> {Some (CHR ''.''), Some (CHR ''!''), Some (CHR ''?'')}
      then length (takeWhile is_space s) else 0)"

definition split_into_sentences :: "string \<Rightarrow> string list" where
  "split_into_sentences txt =
     map strip (filter (\<lambda>s. strip s \<noteq> []) (re_split sentence_break txt))"

definition get_overlap_text :: "'tok text_chunker \<Rightarrow> string list \<Rightarrow> string" where
  "get_overlap_text self chunks =
     (if chunks = [] then []
      else (let combined = join '' '' chunks;
                overlap_tokens = chunk_overlap self;
                tokens = encode self combined
            in if int (length tokens) \<le> overlap_tokens then combined
               else decode self (slice_from (- overlap_tokens) tokens)))"

text \<open>
  The state of the two accumulation loops: the chunks emitted so far, the buffer
  \<open>current_chunk\<close> and the counter \<open>current_tokens\<close>.
\<close>

type_synonym chunk_state = "string list \<times> string list \<times> int"

definition sentence_step ::
  "'tok text_chunker \<Rightarrow> string \<Rightarrow> int \<Rightarrow> chunk_state \<Rightarrow> string \<Rightarrow> chunk_state" where
  "sentence_step self header_context header_tokens state sentence =
     (case state of (chunks, current_chunk, current_tokens) \<Rightarrow>
        (let sentence_tokens = count_tokens self sentence
         in if current_tokens + sentence_tokens > chunk_size self - header_tokens then
              (if current_chunk \<noteq> [] then
                 (let chunk_text = header_context @ join '' '' current_chunk;
                      overlap_text = get_overlap_text self current_chunk;
                      new_chunk = (if overlap_text \<noteq> [] then [overlap_text, sentence]
                                   else [sentence])
                  in (chunks @ [chunk_text], new_chunk,
                      count_tokens self (join '' '' new_chunk)))
               else (chunks @ [header_context @ sentence], [], 0))
            else (chunks, current_chunk @ [sentence], current_tokens + sentence_tokens)))"

text \<open>The final chunk of either loop: the buffer, when it is not empty.\<close>

definition flush_final :: "string \<Rightarrow> chunk_state \<Rightarrow> string list" where
  "flush_final header_context state =
     (case state of (chunks, current_chunk, current_tokens) \<Rightarrow>
        if current_chunk \<noteq> [] then chunks @ [header_context @ join '' '' current_chunk]
        else chunks)"

definition create_chunks_from_sentences ::
  "'tok text_chunker \<Rightarrow> string list \<Rightarrow> string \<Rightarrow> int \<Rightarrow> string list" where
  "create_chunks_from_sentences self sentences header_context header_tokens =
     flush_final header_context
       (foldl (sentence_step self header_context header_tokens) ([], [], 0) sentences)"

definition paragraph_step ::
  "'tok text_chunker \<Rightarrow> string \<Rightarrow> int \<Rightarrow> chunk_state \<Rightarrow> string \<Rightarrow> chunk_state" where
  "paragraph_step self header_context header_tokens state para =
     (case state of (chunks, current_chunk, current_tokens) \<Rightarrow>
        (let para_tokens = count_tokens self para
         in if para_tokens > chunk_size self - header_tokens then
              (let flushed =
                     (if current_chunk \<noteq> []
                      then chunks @ [header_context @ join '' '' current_chunk] else chunks);
                   kept = (if current_chunk \<noteq> [] then ([], 0) else (current_chunk, current_tokens));
                   sentences = split_into_sentences para;
                   sub_chunks =
                     create_chunks_from_sentences self sentences header_context header_tokens
               in (flushed @ sub_chunks, fst kept, snd kept))
            else if current_tokens + para_tokens > chunk_size self - header_tokens then
              (if current_chunk \<noteq> [] then
                 (let chunk_text = header_context @ join '' '' current_chunk;
                      overlap_text = get_overlap_text self current_chunk;
                      new_chunk = (if overlap_text \<noteq> [] then [overlap_text, para] else [para])
                  in (chunks @ [chunk_text], new_chunk,
                      count_tokens self (join '' '' new_chunk)))
               else (chunks, [para], para_tokens))
            else (chunks, current_chunk @ [para], current_tokens + para_tokens)))"

definition create_chunks_from_paragraphs ::
  "'tok text_chunker \<Rightarrow> string list \<Rightarrow> int \<Rightarrow> string \<Rightarrow> string list" where
  "create_chunks_from_paragraphs self paragraphs page_number section_header =
     (let header_context =
            (if section_header \<noteq> [] then ''['' @ section_header @ '']'' @ [CHR 0x0A, CHR 0x0A]
             else []);
          header_tokens =
            (if section_header \<noteq> [] then count_tokens self header_context else 0)
      in flush_final header_context
           (foldl (paragraph_step self header_context header_tokens) ([], [], 0) paragraphs))"

text \<open>A page; \<open>None\<close> is an absent key \<open>section_header\<close>, read as the empty header.\<close>

record page =
  pg_text :: string
  pg_page_number :: int
  pg_section_header :: "string option"

record chunk =
  ck_chunk_id :: int
  ck_text :: string
  ck_page_number :: int
  ck_section_header :: string
  token_count :: int
  char_count :: int

text \<open>
  The body of the loop of \<open>chunk_documents\<close> over the pages: the chunks of one page,
  numbered from the counter \<open>chunk_id\<close> on.
\<close>

definition page_chunks :: "'tok text_chunker \<Rightarrow> int \<Rightarrow> page \<Rightarrow> chunk list" where
  "page_chunks self chunk_id page_data =
     (let txt = pg_text page_data;
          page_number = pg_page_number page_data;
          section_header = (case pg_section_header page_data of None \<Rightarrow> [] | Some h \<Rightarrow> h);
          paragraphs = split_into_paragraphs txt;
          chunks = create_chunks_from_paragraphs self paragraphs page_number section_header
      in map (\<lambda>(i, chunk_text).
                \<lparr>ck_chunk_id = chunk_id + 1 + int i,
                 ck_text = chunk_text,
                 ck_page_number = page_number,
                 ck_section_header = section_header,
                 token_count = count_tokens self chunk_text,
                 char_count = int (length chunk_text)\<rparr>)
           (enumerate 0 chunks))"

fun chunk_pages :: "'tok text_chunker \<Rightarrow> int \<Rightarrow> page list \<Rightarrow> chunk list" where
  "chunk_pages self chunk_id [] = []"
| "chunk_pages self chunk_id (page_data # pages) =
     (let cs = page_chunks self chunk_id page_data
      in cs @ chunk_pages self (chunk_id + int (length cs)) pages)"

definition chunk_documents :: "'tok text_chunker \<Rightarrow> page list \<Rightarrow> chunk list" where
  "chunk_documents self pages_data = chunk_pages self 0 pages_data"

text \<open>
  A tokenizer to run the chunker with: one token for each word, a blank before the word
  belonging to the word's token, as a byte-pair encoding splits a text of short
  common words. \<open>decode\<close> puts the tokens together again.
\<close>

fun word_pieces :: "string \<Rightarrow> string \<Rightarrow> string list" where
  "word_pieces piece [] = (if piece = [] then [] else [piece])"
| "word_pieces piece (c # cs) =
     (if c = CHR '' '' \<and> piece \<noteq> [] then piece # word_pieces [c] cs
      else word_pieces (piece @ [c]) cs)"

definition word_encode :: "string \<Rightarrow> string list" where
  "word_encode txt = word_pieces [] txt"

definition word_decode :: "string list \<Rightarrow> string" where
  "word_decode tokens = concat tokens"

definition word_chunker :: "int \<Rightarrow> int \<Rightarrow> string text_chunker" where
  "word_chunker max_tokens overlap =
     \<lparr>chunk_size = max_tokens, chunk_overlap = overlap, encode = word_encode, decode = word_decode\<rparr>"


section \<open>Example inputs\<close>

definition mk_violation :: "string \<Rightarrow> string \<Rightarrow> violation" where
  "mk_violation c s =
     \<lparr>category = c, severity = s, description = [], recommendation = [],
      guideline_reference = []\<rparr>"

definition example_rule_violations :: "violation list" where
  "example_rule_violations =
     [mk_violation ''homebound_status'' ''critical'', mk_violation ''plan'' ''major'']"

definition example_llm_result :: llm_result where
  "example_llm_result =
     \<lparr>lr_status = ''needs_review'', lr_overall_score = 80,
      lr_violations = [mk_violation ''General'' ''major'', mk_violation ''plan'' ''minor'',
                       mk_violation ''General'' ''minor''],
      lr_strengths = 0, lr_summary = []\<rparr>"

text \<open>A store with one list of strengths, and a model result without violations.\<close>

definition example_store :: store where
  "example_store r = (if r = 0 then [''Vital signs documented''] else [])"

definition clean_llm_result :: llm_result where
  "clean_llm_result =
     \<lparr>lr_status = ''compliant'', lr_overall_score = 100, lr_violations = [],
      lr_strengths = 0, lr_summary = []\<rparr>"

text \<open>An answer of the vector index: two documents, metadata and a distance for the first.\<close>

definition example_raw_results :: raw_results where
  "example_raw_results =
     \<lparr>documents = Some [[''Homebound means leaving home takes taxing effort.'',
                         ''Skilled nursing visits must be documented.'']],
      metadatas = Some [[\<lparr>md_page_number = Some 12, md_section_header = Some ''30.1.1'',
                          md_chunk_id = Some 40\<rparr>]],
      distances = Some [[1/4]]\<rparr>"

text \<open>
  Embedders and indexes: a provider that fails, one that answers, an index without
  matches and an index with two.
\<close>

definition failing_embedder :: "string \<Rightarrow> real list option" where
  "failing_embedder query = None"

definition working_embedder :: "string \<Rightarrow> real list option" where
  "working_embedder query = Some [1/2, 1/2]"

definition empty_index ::
  "real list \<Rightarrow> int \<Rightarrow> metadata_filter option \<Rightarrow> py_error + raw_results" where
  "empty_index query_embedding n_results filter_metadata =
     Inr \<lparr>documents = Some [[]], metadatas = Some [[]], distances = Some [[]]\<rparr>"

definition example_index ::
  "real list \<Rightarrow> int \<Rightarrow> metadata_filter option \<Rightarrow> py_error + raw_results" where
  "example_index query_embedding n_results filter_metadata =
     Inr \<lparr>documents = Some [[''Wound care was provided.'', ''The patient is homebound.'']],
          metadatas = Some [[]],
          distances = Some [[1/10, 3/20]]\<rparr>"

definition broken_search :: semantic_search where
  "broken_search = \<lparr>embedder = failing_embedder, vector_store = example_index\<rparr>"

definition idle_search :: semantic_search where
  "idle_search = \<lparr>embedder = working_embedder, vector_store = empty_index\<rparr>"



text \<open>A page of two paragraphs of eight one-letter words each.\<close>

definition two_paragraph_page :: page where
  "two_paragraph_page =
     \<lparr>pg_text = ''a b c d e f g h'' @ [CHR 0x0A, CHR 0x0A] @ ''i j k l m n o p'',
      pg_page_number = 1, pg_section_header = None\<rparr>"


section \<open>Characters beyond ASCII\<close>

lemma latin1_examples:
  "lower [CHR 0xC9, CHR ''A'', CHR 0xD7, CHR 0xDE, CHR 0xDF] =
     [CHR 0xE9, CHR ''a'', CHR 0xD7, CHR 0xFE, CHR 0xDF]"
  "is_space (CHR 0x85) \<and> is_space (CHR 0xA0) \<and> is_space (CHR 0x1C) \<and> \<not> is_space (CHR 0x1B)"
  "keyword_matches [CHR 0xC9, CHR ''t'', CHR ''a'', CHR ''t''] [CHR 0xE9, CHR ''T'', CHR ''A'', CHR ''T'']"
  "split_into_paragraphs [CHR ''a'', CHR 0x0A, CHR 0x85, CHR 0x0A, CHR ''b''] = [''a'', ''b'']"
  "strip [CHR 0xA0, CHR ''a'', CHR '' '', CHR 0x85] = ''a''"
  by code_simp+


section \<open>The rule engine on the empty note\<close>

lemmas rules_defs =
  validate_note_def check_required_elements_def REQUIRED_ELEMENTS_def
  required_element_violation_def check_homebound_status_def HOMEBOUND_KEYWORDS_def
  check_medical_necessity_def MEDICAL_NECESSITY_KEYWORDS_def check_visit_duration_def
  re_findall_def lower_def

lemma severity_count_length:
  "severity_count sev vs = int (length (filter (\<lambda>v. severity v = sev) vs))"
  unfolding severity_count_def by (induction vs) auto

lemma severity_count_pairs:
  "severity_count sev vs =
     int (length (filter (\<lambda>p. snd p = sev) (map (\<lambda>v. (category v, severity v)) vs)))"
  unfolding severity_count_length by (induction vs) auto

lemma validate_note_empty_pairs:
  "map (\<lambda>v. (category v, severity v)) (validate_note '''') =
     [(''patient_info'', ''minor''), (''visit_date'', ''minor''), (''visit_type'', ''minor''),
      (''assessment'', ''major''), (''interventions'', ''major''), (''vital_signs'', ''minor''),
      (''plan'', ''major''), (''nurse_signature'', ''minor''), (''time_in_out'', ''minor''),
      (''homebound_status'', ''critical''), (''medical_necessity'', ''critical''),
      (''visit_details'', ''minor'')]"
  by (simp add: rules_defs)

text \<open>
  C10. On the empty note \<open>validate_note\<close> returns twelve violations: one for each of
  the nine required elements, in the order of the dictionary, then
  \<open>homebound_status\<close>, \<open>medical_necessity\<close> and \<open>visit_details\<close>; two of them are
  critical, three major and seven minor.
\<close>

theorem validate_note_empty:
  "map (\<lambda>v. (category v, severity v)) (validate_note '''') =
     [(''patient_info'', ''minor''), (''visit_date'', ''minor''), (''visit_type'', ''minor''),
      (''assessment'', ''major''), (''interventions'', ''major''), (''vital_signs'', ''minor''),
      (''plan'', ''major''), (''nurse_signature'', ''minor''), (''time_in_out'', ''minor''),
      (''homebound_status'', ''critical''), (''medical_necessity'', ''critical''),
      (''visit_details'', ''minor'')] \<and>
   length (validate_note '''') = 12 \<and>
   severity_count ''critical'' (validate_note '''') = 2 \<and>
   severity_count ''major'' (validate_note '''') = 3 \<and>
   severity_count ''minor'' (validate_note '''') = 7 \<and>
   map category (check_required_elements '''') = map fst REQUIRED_ELEMENTS"
proof -
  have len: "length (validate_note '''') = 12"
    using arg_cong [OF validate_note_empty_pairs, of length] by simp
  have c: "severity_count ''critical'' (validate_note '''') = 2"
    unfolding severity_count_pairs validate_note_empty_pairs by simp
  have ma: "severity_count ''major'' (validate_note '''') = 3"
    unfolding severity_count_pairs validate_note_empty_pairs by simp
  have mi: "severity_count ''minor'' (validate_note '''') = 7"
    unfolding severity_count_pairs validate_note_empty_pairs by simp
  have req: "map category (check_required_elements '''') = map fst REQUIRED_ELEMENTS"
    by (simp add: rules_defs)
  show ?thesis using validate_note_empty_pairs len c ma mi req by simp
qed


section \<open>The merger: violations, score and status\<close>

lemma add_if_new_cases:
  "add_if_new acc v = (if category v \<in> set (map category acc) then acc else acc @ [v])"
proof -
  have "list_ex (\<lambda>u. category u = category v) acc \<longleftrightarrow> category v \<in> set (map category acc)"
    by (induction acc) auto
  then show ?thesis by (simp add: add_if_new_def)
qed

lemma merge_violations_Nil: "merge_violations rv [] = rv"
  by (simp add: merge_violations_def)

lemma merge_violations_Cons:
  "merge_violations rv (v # vs) = merge_violations (add_if_new rv v) vs"
  by (simp add: merge_violations_def)

lemma merge_violations_distinct:
  "distinct (map category rv) \<Longrightarrow> distinct (map category (merge_violations rv lv))"
proof (induction lv arbitrary: rv)
  case Nil
  then show ?case by (simp add: merge_violations_Nil)
next
  case (Cons v lv)
  have "distinct (map category (add_if_new rv v))"
    using Cons.prems by (auto simp: add_if_new_cases)
  then show ?case
    by (simp add: merge_violations_Cons Cons.IH)
qed

lemma merge_violations_append:
  "\<exists>ys. merge_violations rv lv = rv @ ys \<and> subseq ys lv"
proof (induction lv arbitrary: rv)
  case Nil
  then show ?case by (simp add: merge_violations_Nil)
next
  case (Cons v lv)
  obtain ys where ys: "merge_violations (add_if_new rv v) lv = add_if_new rv v @ ys"
      "subseq ys lv"
    using Cons.IH by blast
  show ?case
  proof (cases "category v \<in> set (map category rv)")
    case True
    then have "merge_violations rv (v # lv) = rv @ ys"
      using ys(1) by (simp add: merge_violations_Cons add_if_new_cases)
    moreover have "subseq ys (v # lv)" using ys(2) by (rule list_emb_Cons)
    ultimately show ?thesis by blast
  next
    case False
    then have "merge_violations rv (v # lv) = rv @ (v # ys)"
      using ys(1) by (simp add: merge_violations_Cons add_if_new_cases)
    moreover have "subseq (v # ys) (v # lv)" using ys(2) by simp
    ultimately show ?thesis by blast
  qed
qed

lemma merge_violations_categories:
  "set (map category (merge_violations rv lv)) = set (map category rv) \<union> set (map category lv)"
proof (induction lv arbitrary: rv)
  case Nil
  then show ?case by (simp add: merge_violations_Nil)
next
  case (Cons v lv)
  show ?case
    unfolding merge_violations_Cons Cons.IH
    by (auto simp: add_if_new_cases)
qed

lemma violations_combine:
  "cr_violations (snd (combine_results st rv llm gl)) = merge_violations rv (lr_violations llm)"
  by (simp add: combine_results_def Let_def)

text \<open>
  C2. The overall score of the combined result is
  \<open>max(0, 100 - 30 * critical - 15 * major - 5 * minor)\<close>, where the three counts are the
  numbers of violations of that severity in the merged list of the result. A merged
  list with one critical, two major and one minor violation scores 35; the empty
  merged list scores 100 and has the status \<open>compliant\<close>.
\<close>

theorem combine_results_score:
  "cr_overall_score (snd (combine_results st rule_violations llm_res guidelines)) =
     max 0 (100
       - 30 * severity_count ''critical''
           (cr_violations (snd (combine_results st rule_violations llm_res guidelines)))
       - 15 * severity_count ''major''
           (cr_violations (snd (combine_results st rule_violations llm_res guidelines)))
       - 5 * severity_count ''minor''
           (cr_violations (snd (combine_results st rule_violations llm_res guidelines)))) \<and>
   severity_count sev
       (cr_violations (snd (combine_results st rule_violations llm_res guidelines))) =
     int (length (filter (\<lambda>v. severity v = sev)
       (cr_violations (snd (combine_results st rule_violations llm_res guidelines))))) \<and>
   cr_overall_score (snd (combine_results st
       [mk_violation ''homebound_status'' ''critical'', mk_violation ''assessment'' ''major'']
       (llm_res\<lparr>lr_violations :=
          [mk_violation ''General'' ''major'', mk_violation ''Timing'' ''minor'']\<rparr>)
       guidelines)) = 35 \<and>
   cr_overall_score
     (snd (combine_results st [] (llm_res\<lparr>lr_violations := []\<rparr>) guidelines)) = 100 \<and>
   cr_status
     (snd (combine_results st [] (llm_res\<lparr>lr_violations := []\<rparr>) guidelines)) = ''compliant''"
  by (simp add: combine_results_def Let_def severity_count_length merge_violations_def
      add_if_new_def mk_violation_def)

lemma combine_results_fields:
  "cr_violations (snd (combine_results st rv llm gl)) = merge_violations rv (lr_violations llm)"
  "cr_overall_score (snd (combine_results st rv llm gl)) =
     max 0 (100
       - 30 * int (length (filter (\<lambda>v. severity v = ''critical'')
                    (merge_violations rv (lr_violations llm))))
       - 15 * int (length (filter (\<lambda>v. severity v = ''major'')
                    (merge_violations rv (lr_violations llm))))
       - 5 * int (length (filter (\<lambda>v. severity v = ''minor'')
                    (merge_violations rv (lr_violations llm)))))"
  "cr_status (snd (combine_results st rv llm gl)) =
     (if 0 < int (length (filter (\<lambda>v. severity v = ''critical'')
                    (merge_violations rv (lr_violations llm)))) \<or>
         cr_overall_score (snd (combine_results st rv llm gl)) < 60
      then ''non_compliant''
      else if 2 < int (length (filter (\<lambda>v. severity v = ''major'')
                    (merge_violations rv (lr_violations llm)))) \<or>
              cr_overall_score (snd (combine_results st rv llm gl)) < 80
      then ''needs_review''
      else ''compliant'')"
  by (simp_all add: combine_results_def Let_def severity_count_length)

lemma status_texts_differ:
  "''non_compliant'' \<noteq> ''needs_review''" "''non_compliant'' \<noteq> ''compliant''"
  "''needs_review'' \<noteq> ''compliant''"
  by simp_all

text \<open>
  C3. Let the merged list be the rule violations followed by the model's violations of
  a new category, let the counts be the numbers of its violations of each severity
  and the score \<open>max(0, 100 - 30 * critical - 15 * major - 5 * minor)\<close>. The combined
  result holds this list and this score, and its status is \<open>non_compliant\<close> exactly when
  there is a critical violation or the score is below 60; otherwise \<open>needs_review\<close>
  exactly when there are more than two major violations or the score is below 80;
  otherwise \<open>compliant\<close>. Two critical rule violations give \<open>non_compliant\<close>, and so
  does one (score 70), and so do two major and four minor violations (score 50); two
  major violations, one of them the model's, give \<open>needs_review\<close> (score 70), a
  repeated category of the model not counted; one major and one minor violation give
  \<open>compliant\<close> (score 80).
\<close>

theorem combine_results_status:
  "(let all_violations = merge_violations rule_violations (lr_violations llm_res);
        critical_count = int (length (filter (\<lambda>v. severity v = ''critical'') all_violations));
        major_count = int (length (filter (\<lambda>v. severity v = ''major'') all_violations));
        minor_count = int (length (filter (\<lambda>v. severity v = ''minor'') all_violations));
        score = max 0 (100 - 30 * critical_count - 15 * major_count - 5 * minor_count);
        r = snd (combine_results st rule_violations llm_res guidelines)
    in cr_violations r = all_violations \<and>
       cr_overall_score r = score \<and>
       cr_status r =
         (if critical_count > 0 \<or> score < 60 then ''non_compliant''
          else if major_count > 2 \<or> score < 80 then ''needs_review''
          else ''compliant'') \<and>
       (cr_status r = ''non_compliant'' \<longleftrightarrow> (critical_count > 0 \<or> score < 60)) \<and>
       (cr_status r = ''needs_review'' \<longleftrightarrow>
          \<not> (critical_count > 0 \<or> score < 60) \<and> (major_count > 2 \<or> score < 80)) \<and>
       (cr_status r = ''compliant'' \<longleftrightarrow>
          \<not> (critical_count > 0 \<or> score < 60) \<and> \<not> (major_count > 2 \<or> score < 80))) \<and>
   cr_status (snd (combine_results st
       [mk_violation ''homebound_status'' ''critical'',
        mk_violation ''medical_necessity'' ''critical'']
       (llm_res\<lparr>lr_violations := []\<rparr>) guidelines)) = ''non_compliant'' \<and>
   cr_status (snd (combine_results st
       [mk_violation ''homebound_status'' ''critical'']
       (llm_res\<lparr>lr_violations := []\<rparr>) guidelines)) = ''non_compliant'' \<and>
   cr_overall_score (snd (combine_results st
       [mk_violation ''homebound_status'' ''critical'']
       (llm_res\<lparr>lr_violations := []\<rparr>) guidelines)) = 70 \<and>
   cr_status (snd (combine_results st
       [mk_violation ''assessment'' ''major'', mk_violation ''plan'' ''major'']
       (llm_res\<lparr>lr_violations :=
          [mk_violation ''Timing'' ''minor'', mk_violation ''Vitals'' ''minor'',
           mk_violation ''Signature'' ''minor'', mk_violation ''Date'' ''minor'']\<rparr>)
       guidelines)) = ''non_compliant'' \<and>
   cr_status (snd (combine_results st
       [mk_violation ''plan'' ''major'']
       (llm_res\<lparr>lr_violations :=
          [mk_violation ''plan'' ''major'', mk_violation ''General'' ''major'',
           mk_violation ''General'' ''critical'']\<rparr>)
       guidelines)) = ''needs_review'' \<and>
   cr_status (snd (combine_results st
       [mk_violation ''plan'' ''major'']
       (llm_res\<lparr>lr_violations := [mk_violation ''General'' ''minor'']\<rparr>)
       guidelines)) = ''compliant''"
proof -
  let ?all = "merge_violations rule_violations (lr_violations llm_res)"
  let ?r = "snd (combine_results st rule_violations llm_res guidelines)"
  let ?c = "int (length (filter (\<lambda>v. severity v = ''critical'') ?all))"
  let ?m = "int (length (filter (\<lambda>v. severity v = ''major'') ?all))"
  let ?n = "int (length (filter (\<lambda>v. severity v = ''minor'') ?all))"
  let ?s = "max 0 (100 - 30 * ?c - 15 * ?m - 5 * ?n)"
  have v: "cr_violations ?r = ?all" by (rule combine_results_fields(1))
  have s: "cr_overall_score ?r = ?s" by (rule combine_results_fields(2))
  have t: "cr_status ?r =
      (if ?c > 0 \<or> ?s < 60 then ''non_compliant''
       else if ?m > 2 \<or> ?s < 80 then ''needs_review'' else ''compliant'')"
    using combine_results_fields(3) [of st rule_violations llm_res guidelines]
    unfolding s .
  have i1: "cr_status ?r = ''non_compliant'' \<longleftrightarrow> (?c > 0 \<or> ?s < 60)"
    unfolding t using status_texts_differ by auto
  have i2: "cr_status ?r = ''needs_review'' \<longleftrightarrow>
      \<not> (?c > 0 \<or> ?s < 60) \<and> (?m > 2 \<or> ?s < 80)"
    unfolding t using status_texts_differ by auto
  have i3: "cr_status ?r = ''compliant'' \<longleftrightarrow>
      \<not> (?c > 0 \<or> ?s < 60) \<and> \<not> (?m > 2 \<or> ?s < 80)"
    unfolding t using status_texts_differ by auto
  have general: "cr_violations ?r = ?all \<and> cr_overall_score ?r = ?s \<and>
      cr_status ?r =
        (if ?c > 0 \<or> ?s < 60 then ''non_compliant''
         else if ?m > 2 \<or> ?s < 80 then ''needs_review'' else ''compliant'') \<and>
      (cr_status ?r = ''non_compliant'' \<longleftrightarrow> (?c > 0 \<or> ?s < 60)) \<and>
      (cr_status ?r = ''needs_review'' \<longleftrightarrow>
         \<not> (?c > 0 \<or> ?s < 60) \<and> (?m > 2 \<or> ?s < 80)) \<and>
      (cr_status ?r = ''compliant'' \<longleftrightarrow>
         \<not> (?c > 0 \<or> ?s < 60) \<and> \<not> (?m > 2 \<or> ?s < 80))"
    using v s t i1 i2 i3 by blast
  have e1: "cr_status (snd (combine_results st
       [mk_violation ''homebound_status'' ''critical'',
        mk_violation ''medical_necessity'' ''critical'']
       (llm_res\<lparr>lr_violations := []\<rparr>) guidelines)) = ''non_compliant''"
    by (simp add: combine_results_fields merge_violations_def add_if_new_def mk_violation_def)
  have e2: "cr_status (snd (combine_results st
       [mk_violation ''homebound_status'' ''critical'']
       (llm_res\<lparr>lr_violations := []\<rparr>) guidelines)) = ''non_compliant''"
    by (simp add: combine_results_fields merge_violations_def add_if_new_def mk_violation_def)
  have e3: "cr_overall_score (snd (combine_results st
       [mk_violation ''homebound_status'' ''critical'']
       (llm_res\<lparr>lr_violations := []\<rparr>) guidelines)) = 70"
    by (simp add: combine_results_fields merge_violations_def add_if_new_def mk_violation_def)
  have e4: "cr_status (snd (combine_results st
       [mk_violation ''assessment'' ''major'', mk_violation ''plan'' ''major'']
       (llm_res\<lparr>lr_violations :=
          [mk_violation ''Timing'' ''minor'', mk_violation ''Vitals'' ''minor'',
           mk_violation ''Signature'' ''minor'', mk_violation ''Date'' ''minor'']\<rparr>)
       guidelines)) = ''non_compliant''"
    by (simp add: combine_results_fields merge_violations_def add_if_new_def mk_violation_def)
  have e5: "cr_status (snd (combine_results st
       [mk_violation ''plan'' ''major'']
       (llm_res\<lparr>lr_violations :=
          [mk_violation ''plan'' ''major'', mk_violation ''General'' ''major'',
           mk_violation ''General'' ''critical'']\<rparr>)
       guidelines)) = ''needs_review''"
    by (simp add: combine_results_fields merge_violations_def add_if_new_def mk_violation_def)
  have e6: "cr_status (snd (combine_results st
       [mk_violation ''plan'' ''major'']
       (llm_res\<lparr>lr_violations := [mk_violation ''General'' ''minor'']\<rparr>)
       guidelines)) = ''compliant''"
    by (simp add: combine_results_fields merge_violations_def add_if_new_def mk_violation_def)
  show ?thesis
    unfolding Let_def using general e1 e2 e3 e4 e5 e6 by blast
qed

text \<open>
  C4. When the rule violations have pairwise distinct categories, the merged list of
  the combined result has pairwise distinct categories; it starts with the rule
  violations, unchanged; what follows them is a selection of the model's violations
  in their order, none of which carries the category of a rule violation; and every
  category of either input is present in the merged list.
\<close>

theorem merge_no_duplicate_category:
  assumes "distinct (map category rule_violations)"
  shows "distinct (map category
           (cr_violations (snd (combine_results st rule_violations llm_res guidelines)))) \<and>
         take (length rule_violations)
           (cr_violations (snd (combine_results st rule_violations llm_res guidelines))) =
           rule_violations \<and>
         (\<exists>appended.
            cr_violations (snd (combine_results st rule_violations llm_res guidelines)) =
              rule_violations @ appended \<and>
            subseq appended (lr_violations llm_res) \<and>
            set (map category appended) \<inter> set (map category rule_violations) = {}) \<and>
         set (map category
           (cr_violations (snd (combine_results st rule_violations llm_res guidelines)))) =
           set (map category rule_violations) \<union> set (map category (lr_violations llm_res))"
proof -
  obtain ys where ys:
      "merge_violations rule_violations (lr_violations llm_res) = rule_violations @ ys"
      "subseq ys (lr_violations llm_res)"
    using merge_violations_append by blast
  have d: "distinct (map category (merge_violations rule_violations (lr_violations llm_res)))"
    by (rule merge_violations_distinct [OF assms])
  have t: "take (length rule_violations)
      (merge_violations rule_violations (lr_violations llm_res)) = rule_violations"
    by (simp add: ys(1))
  have i: "set (map category ys) \<inter> set (map category rule_violations) = {}"
    using d unfolding ys(1) by auto
  have e: "\<exists>appended. merge_violations rule_violations (lr_violations llm_res) =
      rule_violations @ appended \<and> subseq appended (lr_violations llm_res) \<and>
      set (map category appended) \<inter> set (map category rule_violations) = {}"
    using ys i by blast
  have c: "set (map category (merge_violations rule_violations (lr_violations llm_res))) =
      set (map category rule_violations) \<union> set (map category (lr_violations llm_res))"
    by (rule merge_violations_categories)
  show ?thesis
    unfolding violations_combine using d t e c by blast
qed

theorem merge_no_duplicate_category_witness:
  "distinct (map category example_rule_violations) \<and>
   distinct (map category
     (cr_violations (snd (combine_results (\<lambda>r. []) example_rule_violations
        example_llm_result [])))) \<and>
   cr_violations (snd (combine_results (\<lambda>r. []) example_rule_violations
        example_llm_result [])) =
     example_rule_violations @ [mk_violation ''General'' ''major'']"
proof -
  have h: "distinct (map category example_rule_violations)"
    by (simp add: example_rule_violations_def mk_violation_def)
  have v: "cr_violations (snd (combine_results (\<lambda>r. []) example_rule_violations
        example_llm_result [])) =
      example_rule_violations @ [mk_violation ''General'' ''major'']"
    by (simp add: violations_combine merge_violations_def add_if_new_def
        example_rule_violations_def example_llm_result_def mk_violation_def)
  show ?thesis
    using h v merge_no_duplicate_category [OF h, of "\<lambda>r. []" example_llm_result "[]"]
    by simp
qed


section \<open>The merger: the list of strengths\<close>

lemma combine_results_strengths_ref:
  "cr_strengths (snd (combine_results st rv llm gl)) = lr_strengths llm"
  by (simp add: combine_results_def Let_def)

lemma combine_results_store:
  "fst (combine_results st rv llm gl) =
     (if merge_violations rv (lr_violations llm) = [] then
        st(lr_strengths llm := st (lr_strengths llm) @
             [''All required elements are present'', ''Documentation meets CMS guidelines''])
      else st)"
  by (simp add: combine_results_def Let_def)

text \<open>
  C5. The specification states that the list of strengths of the combined result is an object of
  its own and that the model's result is left as it was. The code does otherwise:
  for a model result without violations and no rule violations, the result holds the
  reference of the model result's own list, and that list has grown by the two
  affirmations.
\<close>

theorem combine_results_aliases_strengths:
  "cr_strengths (snd (combine_results example_store [] clean_llm_result [])) =
     lr_strengths clean_llm_result \<and>
   example_store (lr_strengths clean_llm_result) = [''Vital signs documented''] \<and>
   fst (combine_results example_store [] clean_llm_result []) (lr_strengths clean_llm_result) =
     [''Vital signs documented'', ''All required elements are present'',
      ''Documentation meets CMS guidelines'']"
  by (simp add: combine_results_strengths_ref combine_results_store merge_violations_def
      clean_llm_result_def example_store_def)


section \<open>The formatter: similarity scores\<close>

lemma format_match_similarity:
  "similarity_score (format_match mds ds i doc) =
     1 - min (distance (format_match mds ds i doc)) 1"
  "distance (format_match mds ds i doc) = (if i < length ds then ds ! i else 1)"
  by (simp_all add: format_match_def Let_def)

lemma format_results_Inr:
  assumes "format_results results = Inr out" and "i < length out"
  shows "\<exists>docs mds ds. first_group (documents results) = Inr docs \<and>
           first_group (metadatas results) = Inr mds \<and>
           first_group (distances results) = Inr ds \<and>
           i < length docs \<and> out ! i = format_match mds ds i (docs ! i)"
proof -
  from assms obtain docs where d: "first_group (documents results) = Inr docs" "docs \<noteq> []"
    by (auto simp: format_results_def first_group_def split: option.splits list.splits if_splits)
  from assms d obtain mds where m: "first_group (metadatas results) = Inr mds"
    by (auto simp: format_results_def first_group_def
        split: option.splits list.splits if_splits sum.splits)
  from assms d m obtain ds where s: "first_group (distances results) = Inr ds"
    by (auto simp: format_results_def first_group_def
        split: option.splits list.splits if_splits sum.splits)
  have out: "out = map (\<lambda>(i, doc). format_match mds ds i doc) (enumerate 0 docs)"
    using assms(1) d m s
    by (auto simp: format_results_def first_group_def split: option.splits list.splits)
  have len: "i < length docs" using assms(2) out by simp
  have "out ! i = format_match mds ds i (docs ! i)"
    using len by (simp add: out nth_enumerate_eq)
  then show ?thesis using d m s len by blast
qed

text \<open>
  C8. Every formatted match has \<open>similarity_score = 1 - min(distance, 1.0)\<close>; for a
  distance that is not negative the score lies between 0 and 1; the distance is the one
  of the index at the position of the match, and 1.0 where the index gave none, and
  then the score is 0.
\<close>

theorem format_results_similarity:
  assumes "format_results results = Inr out" and "i < length out"
  shows "similarity_score (out ! i) = 1 - min (distance (out ! i)) 1 \<and>
         (0 \<le> distance (out ! i) \<longrightarrow>
            0 \<le> similarity_score (out ! i) \<and> similarity_score (out ! i) \<le> 1) \<and>
         (\<exists>ds. first_group (distances results) = Inr ds \<and>
               distance (out ! i) = (if i < length ds then ds ! i else 1) \<and>
               (length ds \<le> i \<longrightarrow> distance (out ! i) = 1 \<and> similarity_score (out ! i) = 0))"
proof -
  obtain docs mds ds where f:
      "first_group (distances results) = Inr ds"
      "out ! i = format_match mds ds i (docs ! i)"
    using format_results_Inr [OF assms] by blast
  have s: "similarity_score (out ! i) = 1 - min (distance (out ! i)) 1"
    unfolding f(2) by (rule format_match_similarity(1))
  have d: "distance (out ! i) = (if i < length ds then ds ! i else 1)"
    unfolding f(2) by (rule format_match_similarity(2))
  have b: "0 \<le> distance (out ! i) \<longrightarrow>
      0 \<le> similarity_score (out ! i) \<and> similarity_score (out ! i) \<le> 1"
    unfolding s by (simp add: min_def)
  have z: "length ds \<le> i \<longrightarrow> distance (out ! i) = 1 \<and> similarity_score (out ! i) = 0"
    unfolding s d by simp
  show ?thesis using s b f(1) d z by blast
qed

lemma example_raw_results_formatted:
  "format_results example_raw_results =
     Inr [\<lparr>sr_text = ''Homebound means leaving home takes taxing effort.'',
           sr_page_number = Some 12, sr_section_header = ''30.1.1'',
           similarity_score = 3/4, distance = 1/4, sr_chunk_id = Some 40\<rparr>,
          \<lparr>sr_text = ''Skilled nursing visits must be documented.'',
           sr_page_number = None, sr_section_header = [],
           similarity_score = 0, distance = 1, sr_chunk_id = None\<rparr>]"
  by (simp add: example_raw_results_def format_results_def first_group_def format_match_def
      no_metadata_def enumerate_eq_zip upt_rec numeral_2_eq_2)

theorem format_results_similarity_witness:
  "(\<exists>out. format_results example_raw_results = Inr out \<and> 0 < length out \<and>
      similarity_score (out ! 0) = 1 - min (distance (out ! 0)) 1 \<and>
      distance (out ! 0) = 1/4 \<and> similarity_score (out ! 0) = 3/4) \<and>
   (\<exists>out. format_results example_raw_results = Inr out \<and> 1 < length out \<and>
      similarity_score (out ! 1) = 1 - min (distance (out ! 1)) 1 \<and>
      distance (out ! 1) = 1 \<and> similarity_score (out ! 1) = 0)"
proof -
  let ?out = "projr (format_results example_raw_results)"
  have r: "format_results example_raw_results = Inr ?out"
    by (simp add: example_raw_results_formatted)
  have l0: "0 < length ?out" and l1: "1 < length ?out"
    by (simp_all add: example_raw_results_formatted)
  have v: "distance (?out ! 0) = 1/4" "similarity_score (?out ! 0) = 3/4"
      "distance (?out ! 1) = 1" "similarity_score (?out ! 1) = 0"
    by (simp_all add: example_raw_results_formatted)
  show ?thesis
    using r l0 l1 v format_results_similarity [OF r l0] format_results_similarity [OF r l1]
    by blast
qed


section \<open>Search when the embedding provider fails\<close>

text \<open>
  C9, as specified: a failure of the embedding provider is told apart from a search
  without matches. It is not: with the failing provider and an index that holds two
  documents, \<open>search\<close> returns the empty list without an error, the very value it
  returns for a working provider and an index without matches.
\<close>

theorem search_embedding_failure_counterexample:
  "embedder broken_search ''homebound'' = None \<and>
   search broken_search ''homebound'' 5 None = Inr [] \<and>
   search idle_search ''homebound'' 5 None = Inr [] \<and>
   search broken_search ''homebound'' 5 None = search idle_search ''homebound'' 5 None"
  by (simp add: search_def broken_search_def idle_search_def failing_embedder_def
      working_embedder_def empty_index_def format_results_def)

text \<open>
  C9, amended. When the embedder returns no embedding for the query, \<open>search\<close>
  returns the empty list of results, as a normal value, whatever the index holds.
\<close>

theorem search_embedding_failure:
  "embedder self query = None \<Longrightarrow> search self query n_results filter_metadata = Inr []"
  by (simp add: search_def)

theorem search_embedding_failure_witness:
  "embedder broken_search ''homebound'' = None \<and>
   search broken_search ''homebound'' 5 None = Inr []"
proof -
  have h: "embedder broken_search ''homebound'' = None"
    by (simp add: broken_search_def failing_embedder_def)
  show ?thesis using h search_embedding_failure [OF h, of 5 None] by simp
qed


section \<open>Keyword boost and re-ranking\<close>





















section \<open>The chunker: overlap text and chunk sizes\<close>

lemma get_overlap_text_zero:
  assumes "chunk_overlap self = 0" and "chunks \<noteq> []"
    and "encode self (join '' '' chunks) \<noteq> []"
  shows "get_overlap_text self chunks = decode self (encode self (join '' '' chunks))"
  using assms by (simp add: get_overlap_text_def Let_def slice_from_def)

lemma get_overlap_text_bound:
  assumes "chunks \<noteq> []" and "0 < chunk_overlap self"
    and rt: "\<And>k. encode self (decode self (drop k (encode self (join '' '' chunks)))) =
                 drop k (encode self (join '' '' chunks))"
  shows "count_tokens self (get_overlap_text self chunks) \<le> chunk_overlap self \<and>
         get_overlap_text self chunks =
           (if count_tokens self (join '' '' chunks) \<le> chunk_overlap self
            then join '' '' chunks
            else decode self
                   (drop (length (encode self (join '' '' chunks)) - nat (chunk_overlap self))
                      (encode self (join '' '' chunks))))"
proof (cases "count_tokens self (join '' '' chunks) \<le> chunk_overlap self")
  case True
  then show ?thesis
    using assms(1) by (simp add: get_overlap_text_def Let_def count_tokens_def)
next
  case False
  let ?ts = "encode self (join '' '' chunks)"
  have sl: "slice_from (- chunk_overlap self) ?ts =
      drop (length ?ts - nat (chunk_overlap self)) ?ts"
    using assms(2) False by (simp add: slice_from_def count_tokens_def nat_diff_distrib')
  have g: "get_overlap_text self chunks =
      decode self (drop (length ?ts - nat (chunk_overlap self)) ?ts)"
    using assms(1) False by (simp add: get_overlap_text_def Let_def count_tokens_def sl)
  have "count_tokens self (get_overlap_text self chunks) =
      int (length (drop (length ?ts - nat (chunk_overlap self)) ?ts))"
    unfolding g count_tokens_def rt ..
  also have "\<dots> \<le> chunk_overlap self"
    using assms(2) False by (simp add: count_tokens_def)
  finally show ?thesis using g False by simp
qed

lemma get_overlap_text_example:
  "get_overlap_text (word_chunker 10 2) [''a b c'', ''d e''] = '' d e'' \<and>
   count_tokens (word_chunker 10 2) (get_overlap_text (word_chunker 10 2) [''a b c'', ''d e'']) = 2"
  by code_simp

text \<open>
  C6. The specification states that the overlap text never has more tokens than the overlap
  width. For a width of at least one it holds (\<open>get_overlap_text_bound\<close>). For the
  width 0 the code keeps the whole buffer, since the slice \<open>tokens[-0:]\<close> is the whole
  list: the buffer \<open>a b c\<close> of three tokens comes back as it is.
\<close>

theorem get_overlap_text_zero_width:
  "chunk_overlap (word_chunker 10 0) = 0 \<and>
   get_overlap_text (word_chunker 10 0) [''a b c''] = ''a b c'' \<and>
   count_tokens (word_chunker 10 0) (get_overlap_text (word_chunker 10 0) [''a b c'']) = 3"
  by code_simp

text \<open>
  C1. The specification states that a chunk has at most \<open>chunk_size\<close> tokens unless it is one
  oversized sentence, emitted whole. The code does otherwise: with \<open>chunk_size = 10\<close>
  and an overlap of 5, a page of two paragraphs, each a single sentence of eight
  tokens, gives a second chunk of 13 tokens: the five tokens of overlap and the second
  paragraph. No sentence of the page exceeds the chunk size.
\<close>

theorem chunk_documents_exceeds_chunk_size:
  "chunk_size (word_chunker 10 5) = 10 \<and>
   split_into_paragraphs (pg_text two_paragraph_page) =
     [''a b c d e f g h'', ''i j k l m n o p''] \<and>
   map (\<lambda>s. (s, count_tokens (word_chunker 10 5) s))
     (concat (map split_into_sentences (split_into_paragraphs (pg_text two_paragraph_page)))) =
     [(''a b c d e f g h'', 8), (''i j k l m n o p'', 8)] \<and>
   map (\<lambda>c. (ck_chunk_id c, ck_text c, token_count c))
     (chunk_documents (word_chunker 10 5) [two_paragraph_page]) =
     [(1, ''a b c d e f g h'', 8), (2, '' d e f g h i j k l m n o p'', 13)]"
  by code_simp

end
